theory Spec2Isabelle
  imports Main "HOL-Library.Word"
begin

unbundle bit_operations_syntax

section \<open>Bytes, error codes and results\<close>

type_synonym byte = "8 word"

text \<open>The values of \<^verbatim>\<open>errno\<close> the code assigns, and stdio's \<^verbatim>\<open>EOF\<close>.\<close>

definition EIO :: int where "EIO = 5"
definition EBADF :: int where "EBADF = 9"
definition EINVAL :: int where "EINVAL = 22"
definition EOF :: int where "EOF = - 1"

text \<open>
  A call either returns, or its behaviour is undefined (a null mode string handed to
  \<^verbatim>\<open>fopen\<close>).
\<close>

datatype 'a outcome = Undefined | Returns 'a

text \<open>
  Byte order: \<^verbatim>\<open>gzmagic == be16_to_cpu(0x1F8B)\<close> compares the two bytes, in file
  order, with the big-endian number, and \<^verbatim>\<open>le32_to_cpu\<close> reads four bytes as a
  little-endian number, whatever the byte order of the host.
\<close>

fun be16 :: "byte list \<Rightarrow> 16 word" where
  "be16 (b0 # b1 # _) = push_bit 8 (ucast b0) OR ucast b1"
| "be16 [b0] = push_bit 8 (ucast b0)"
| "be16 [] = 0"

fun le32 :: "byte list \<Rightarrow> 32 word" where
  "le32 [] = 0"
| "le32 (b # bs) = ucast b OR push_bit 8 (le32 bs)"

section \<open>The C library on a regular file\<close>

text \<open>
  A stream on a regular file: the contents of the file and the position of the stream.
  The library is the one of an in-memory file: a call fails where its arguments make
  it fail (a negative offset or length), with the \<^verbatim>\<open>errno\<close> in \<open>Inl\<close>.
  Faults of the device and exhausted descriptors, memory or disk space are not
  modelled, so \<^verbatim>\<open>ftello\<close>, \<^verbatim>\<open>dup\<close> and \<^verbatim>\<open>gzdopen\<close> always succeed here,
  and the error flag of a stream is never set; the callers below still branch on
  their results as the code does. Offsets are unbounded integers: files are shorter
  than \<open>2^63\<close> bytes, and \<^verbatim>\<open>off_t\<close> and zlib's \<^verbatim>\<open>z_off_t\<close> have 64 bits.
\<close>

record FILE =
  f_data :: "byte list"
  f_pos :: nat

definition fread :: "FILE \<Rightarrow> nat \<Rightarrow> byte list \<times> FILE" where
  "fread f n =
     (let buf = take n (drop (f_pos f) (f_data f))
      in (buf, f\<lparr>f_pos := f_pos f + length buf\<rparr>))"

definition fwrite :: "FILE \<Rightarrow> byte list \<Rightarrow> nat \<times> FILE" where
  "fwrite f buf =
     (let d = f_data f; p = f_pos f;
          d' = take p d @ replicate (p - length d) 0 @ buf @ drop (p + length buf) d
      in (length buf, f\<lparr>f_data := d', f_pos := p + length buf\<rparr>))"

definition ftello :: "FILE \<Rightarrow> int + int" where
  "ftello f = Inr (int (f_pos f))"

definition fseeko_SET :: "FILE \<Rightarrow> int \<Rightarrow> int + FILE" where
  "fseeko_SET f off = (if off < 0 then Inl EINVAL else Inr (f\<lparr>f_pos := nat off\<rparr>))"

definition fseeko_END :: "FILE \<Rightarrow> int \<Rightarrow> int + FILE" where
  "fseeko_END f off =
     (let p = int (length (f_data f)) + off
      in if p < 0 then Inl EINVAL else Inr (f\<lparr>f_pos := nat p\<rparr>))"

definition rewind :: "FILE \<Rightarrow> FILE" where
  "rewind f = f\<lparr>f_pos := 0\<rparr>"

definition ftruncate :: "FILE \<Rightarrow> int \<Rightarrow> int + FILE" where
  "ftruncate f len =
     (if len < 0 then Inl EINVAL
      else Inr (f\<lparr>f_data := take (nat len) (f_data f)
                        @ replicate (nat len - length (f_data f)) 0\<rparr>))"

text \<open>
  The value a caller reads when it does not check the call: \<open>-1\<close> for a failed
  \<^verbatim>\<open>ftello\<close>, and the stream as it was after a failed \<^verbatim>\<open>fseeko\<close>.
\<close>

definition off_ret :: "int + int \<Rightarrow> int" where
  "off_ret r = (case r of Inl _ \<Rightarrow> - 1 | Inr p \<Rightarrow> p)"

definition ignore_failure :: "int + FILE \<Rightarrow> FILE \<Rightarrow> FILE" where
  "ignore_failure r f = (case r of Inl _ \<Rightarrow> f | Inr f' \<Rightarrow> f')"

text \<open>
  A descriptor is modelled by the contents of the file it refers to; \<^verbatim>\<open>dup\<close>
  gives another descriptor of the same file.
\<close>

type_synonym fd = "byte list"

definition fileno :: "FILE \<Rightarrow> fd" where
  "fileno f = f_data f"

definition dup :: "fd \<Rightarrow> int + fd" where
  "dup d = Inr d"

section \<open>The environment: the file system and zlib\<close>

text \<open>
  What lies outside the program is a parameter:
  \<^item> \<open>os_fopen name mode_str\<close>: the answer of the file system to \<^verbatim>\<open>fopen\<close> with a
    mode string, the \<^verbatim>\<open>errno\<close> or the contents of the file as opened;
  \<^item> \<open>os_fstat name\<close>: \<open>None\<close> when \<^verbatim>\<open>fstat\<close> fails, else whether the file is a
    block or character device (the flag is kept as the code keeps it; the stream is
    that of a regular file all the same, and what a device refuses is not modelled);
  \<^item> \<open>os_inflate d\<close>: what zlib makes of the compressed stream \<open>d\<close>, the decompressed
    bytes, or \<open>None\<close> when zlib rejects \<open>d\<close> at its header (a data error: \<open>d\<close> is
    not a gzip stream); a stream that breaks off after zlib has inflated a part of it
    is not modelled;
  \<^item> \<open>os_errno\<close>: the value that \<^verbatim>\<open>errno\<close> holds when \<^verbatim>\<open>gzread\<close> returns \<open>-1\<close>.
    zlib reports its own errors without setting \<^verbatim>\<open>errno\<close>, so this is what earlier
    calls left there.
\<close>

record OS =
  os_fopen :: "string \<Rightarrow> string \<Rightarrow> int + byte list"
  os_fstat :: "string \<Rightarrow> bool option"
  os_inflate :: "byte list \<Rightarrow> byte list option"
  os_errno :: int

definition fopen :: "OS \<Rightarrow> string \<Rightarrow> string option \<Rightarrow> (int + FILE) outcome" where
  "fopen os name mode_str =
     (case mode_str of
        None \<Rightarrow> Undefined
      | Some m \<Rightarrow>
          Returns (case os_fopen os name m of
                     Inl e \<Rightarrow> Inl e
                   | Inr d \<Rightarrow> Inr \<lparr>f_data = d, f_pos = 0\<rparr>))"

text \<open>
  zlib's \<^verbatim>\<open>gzFile\<close> in read mode: the decompressed stream (\<open>None\<close> for a stream that
  zlib rejects, which it finds out at the first read), the position that \<^verbatim>\<open>gztell\<close>
  reports, the error state of the stream, which stays once set, and the \<^verbatim>\<open>errno\<close>
  that a failing call leaves.
\<close>

record gzFile =
  gz_out :: "byte list option"
  gz_pos :: nat
  gz_err :: bool
  gz_errno :: int

definition gzdopen :: "OS \<Rightarrow> fd \<Rightarrow> gzFile option" where
  "gzdopen os d =
     Some \<lparr>gz_out = os_inflate os d, gz_pos = 0, gz_err = False, gz_errno = os_errno os\<rparr>"

text \<open>
  \<^verbatim>\<open>gzread(file, buf, len)\<close> with its \<^verbatim>\<open>unsigned len\<close>, in the order of zlib: a stream
  in error returns \<open>-1\<close>; a length that does not fit an \<^verbatim>\<open>int\<close> (\<open>2^31\<close> or more) puts
  the stream in error and returns \<open>-1\<close>; a length of 0 returns 0; otherwise a seek
  beyond the end of the stream ends at its end, and the bytes from the position on are
  returned. The result is the bytes read, or \<open>Inl errno\<close> for \<open>-1\<close>.
\<close>

definition gzread :: "gzFile \<Rightarrow> nat \<Rightarrow> (int + byte list) \<times> gzFile" where
  "gzread gz len =
     (if gz_err gz then (Inl (gz_errno gz), gz)
      else if 2 ^ 31 \<le> len then (Inl (gz_errno gz), gz\<lparr>gz_err := True\<rparr>)
      else if len = 0 then (Inr [], gz)
      else case gz_out gz of
             None \<Rightarrow> (Inl (gz_errno gz), gz\<lparr>gz_err := True\<rparr>)
           | Some out \<Rightarrow>
               (let pos = min (gz_pos gz) (length out);
                    buf = take len (drop pos out)
                in (Inr buf, gz\<lparr>gz_pos := pos + length buf\<rparr>)))"

text \<open>\<^verbatim>\<open>gzseek\<close> from the start: refused on a stream in error and before the start.\<close>

definition gzseek_SET :: "gzFile \<Rightarrow> int \<Rightarrow> int \<times> gzFile" where
  "gzseek_SET gz off =
     (if gz_err gz \<or> off < 0 then (- 1, gz) else (off, gz\<lparr>gz_pos := nat off\<rparr>))"

definition gztell :: "gzFile \<Rightarrow> int" where
  "gztell gz = int (gz_pos gz)"

section \<open>RpFile (RpFile\_stdio.cpp)\<close>

text \<open>
  The enumerators of \<^verbatim>\<open>RpFile::FileMode\<close> are declared in RpFile.hpp, which is not
  among the sources: they are a parameter of the model.
\<close>

record FileMode =
  FM_READ :: byte
  FM_WRITE :: byte
  FM_CREATE :: byte
  FM_OPEN_READ :: byte
  FM_OPEN_WRITE :: byte
  FM_CREATE_WRITE :: byte
  FM_MODE_MASK :: byte
  FM_OPEN_READ_GZ :: byte

text \<open>
  \<^verbatim>\<open>RpFilePrivate\<close> together with \<^verbatim>\<open>m_lastError\<close> of the base class: the state of
  one \<^verbatim>\<open>RpFile\<close> object. A null pointer is \<open>None\<close>.
\<close>

record RpFile =
  d_file :: "FILE option"
  d_filename :: string
  d_mode :: byte
  d_isDevice :: bool
  d_gzfd :: "gzFile option"
  d_gzsz :: int
  m_lastError :: int

definition mode_to_str :: "FileMode \<Rightarrow> byte \<Rightarrow> string option" where
  "mode_to_str fm mode =
     (let m = mode AND FM_MODE_MASK fm
      in if m = FM_OPEN_READ fm then Some ''rb''
         else if m = FM_OPEN_WRITE fm then Some ''rb+''
         else if m = (FM_CREATE fm OR FM_READ fm) \<or> m = FM_CREATE_WRITE fm then Some ''wb+''
         else None)"

text \<open>
  \<^verbatim>\<open>reOpenFile\<close>, the branch for systems other than Windows. The mode string goes to
  \<^verbatim>\<open>fopen\<close> as \<^verbatim>\<open>mode_to_str\<close> returned it, null or not.
\<close>

definition reOpenFile :: "FileMode \<Rightarrow> OS \<Rightarrow> RpFile \<Rightarrow> (int \<times> RpFile) outcome" where
  "reOpenFile fm os q =
     (let mode_str = mode_to_str fm (d_mode q)
      in case fopen os (d_filename q) mode_str of
           Undefined \<Rightarrow> Undefined
         | Returns (Inl errno) \<Rightarrow>
             (let e = (if errno = 0 then EIO else errno)
              in Returns (e, q\<lparr>d_file := None, m_lastError := e\<rparr>))
         | Returns (Inr f) \<Rightarrow>
             Returns (0, q\<lparr>d_file := Some f,
                            d_isDevice := (case os_fstat os (d_filename q) of
                                             Some dev \<Rightarrow> dev
                                           | None \<Rightarrow> False)\<rparr>))"

text \<open>
  The gzip check of \<^verbatim>\<open>RpFile::init\<close>, on the stream \<open>f0\<close> just opened: the two magic
  bytes, the size of the file, the four bytes of the trailer, and the stream of zlib on
  a duplicate of the descriptor. It ends with the rewind of the branch
  \<^verbatim>\<open>if (!d->gzfd)\<close>.
\<close>

definition init_gzip :: "OS \<Rightarrow> RpFile \<Rightarrow> FILE \<Rightarrow> RpFile" where
  "init_gzip os q f0 =
     (let (gzmagic, f1) = fread f0 2;
          (q', f') =
            (if length gzmagic = 2 \<and> be16 gzmagic = 0x1F8B then
               (let f2 = ignore_failure (fseeko_END f1 0) f1;
                    real_sz = off_ret (ftello f2)
                in if real_sz > 10 + 8 then
                     (case fseeko_SET f2 (real_sz - 4) of
                        Inl _ \<Rightarrow> (q, f2)
                      | Inr f3 \<Rightarrow>
                          (let (buf, f4) = fread f3 4;
                               uncomp_sz = le32 buf
                           in if length buf = 4 \<and> uint uncomp_sz \<ge> real_sz - (10 + 8) then
                                (let q1 = q\<lparr>d_gzsz := uint uncomp_sz\<rparr>;
                                     f5 = rewind f4
                                 in case dup (fileno f5) of
                                      Inl _ \<Rightarrow> (q1, f5)
                                    | Inr gzfd_dup \<Rightarrow>
                                        (q1\<lparr>d_gzfd := gzdopen os gzfd_dup\<rparr>, f5))
                              else (q, f4)))
                   else (q, f2))
             else (q, f1))
      in if d_gzfd q' = None then q'\<lparr>d_file := Some (rewind f')\<rparr>
         else q'\<lparr>d_file := Some f'\<rparr>)"

definition RpFile_init :: "FileMode \<Rightarrow> OS \<Rightarrow> RpFile \<Rightarrow> RpFile outcome" where
  "RpFile_init fm os q0 =
     (case reOpenFile fm os q0 of
        Undefined \<Rightarrow> Undefined
      | Returns (r, q) \<Rightarrow>
          if r \<noteq> 0 then Returns q
          else (case d_file q of
                  None \<Rightarrow> Returns q
                | Some f \<Rightarrow>
                    if d_mode q = FM_OPEN_READ_GZ fm then Returns (init_gzip os q f)
                    else Returns q))"

text \<open>The constructor: the fields as \<^verbatim>\<open>RpFilePrivate\<close> sets them, then \<^verbatim>\<open>init\<close>.\<close>

definition RpFile_new :: "FileMode \<Rightarrow> OS \<Rightarrow> string \<Rightarrow> byte \<Rightarrow> RpFile outcome" where
  "RpFile_new fm os name mode =
     RpFile_init fm os
       \<lparr>d_file = None, d_filename = name, d_mode = mode, d_isDevice = False,
        d_gzfd = None, d_gzsz = - 1, m_lastError = 0\<rparr>"

definition RpFile_isOpen :: "RpFile \<Rightarrow> bool" where
  "RpFile_isOpen q = (d_file q \<noteq> None)"

definition RpFile_close :: "RpFile \<Rightarrow> RpFile" where
  "RpFile_close q = q\<lparr>d_gzfd := None, d_file := None\<rparr>"

text \<open>
  \<^verbatim>\<open>read\<close> returns the bytes put into the buffer; the number the C function returns is
  their length. The \<^verbatim>\<open>size_t\<close> request goes to \<^verbatim>\<open>gzread\<close> as an \<^verbatim>\<open>unsigned\<close> of
  32 bits, so it is taken modulo \<open>2^32\<close> there. The stream of an in-memory file never
  has its error flag set.
\<close>

definition RpFile_read :: "RpFile \<Rightarrow> nat \<Rightarrow> byte list \<times> RpFile" where
  "RpFile_read q n =
     (case d_file q of
        None \<Rightarrow> ([], q\<lparr>m_lastError := EBADF\<rparr>)
      | Some f \<Rightarrow>
          (case d_gzfd q of
             Some gz \<Rightarrow>
               (case gzread gz (n mod 2 ^ 32) of
                  (Inr buf, gz') \<Rightarrow> (buf, q\<lparr>d_gzfd := Some gz'\<rparr>)
                | (Inl errno, gz') \<Rightarrow> ([], q\<lparr>d_gzfd := Some gz', m_lastError := errno\<rparr>))
           | None \<Rightarrow>
               (let (buf, f') = fread f n in (buf, q\<lparr>d_file := Some f'\<rparr>))))"

definition RpFile_write :: "FileMode \<Rightarrow> RpFile \<Rightarrow> byte list \<Rightarrow> nat \<times> RpFile" where
  "RpFile_write fm q buf =
     (case d_file q of
        None \<Rightarrow> (0, q\<lparr>m_lastError := EBADF\<rparr>)
      | Some f \<Rightarrow>
          if d_mode q AND FM_WRITE fm = 0 then (0, q\<lparr>m_lastError := EBADF\<rparr>)
          else (let (ret, f') = fwrite f buf in (ret, q\<lparr>d_file := Some f'\<rparr>)))"

definition RpFile_seek :: "RpFile \<Rightarrow> int \<Rightarrow> int \<times> RpFile" where
  "RpFile_seek q pos =
     (case d_file q of
        None \<Rightarrow> (- 1, q\<lparr>m_lastError := EBADF\<rparr>)
      | Some f \<Rightarrow>
          (case d_gzfd q of
             Some gz \<Rightarrow>
               (let (zret, gz') = gzseek_SET gz pos
                in if zret \<ge> 0 then (0, q\<lparr>d_gzfd := Some gz'\<rparr>)
                   else (- 1, q\<lparr>d_gzfd := Some gz', m_lastError := - EIO\<rparr>))
           | None \<Rightarrow>
               (case fseeko_SET f pos of
                  Inr f' \<Rightarrow> (0, q\<lparr>d_file := Some f'\<rparr>)
                | Inl errno \<Rightarrow> (- 1, q\<lparr>m_lastError := errno\<rparr>))))"

definition RpFile_tell :: "RpFile \<Rightarrow> int \<times> RpFile" where
  "RpFile_tell q =
     (case d_file q of
        None \<Rightarrow> (- 1, q\<lparr>m_lastError := EBADF\<rparr>)
      | Some f \<Rightarrow>
          (case d_gzfd q of
             Some gz \<Rightarrow> (gztell gz, q)
           | None \<Rightarrow> (off_ret (ftello f), q)))"

definition RpFile_truncate :: "FileMode \<Rightarrow> RpFile \<Rightarrow> int \<Rightarrow> int \<times> RpFile" where
  "RpFile_truncate fm q sz =
     (case d_file q of
        None \<Rightarrow> (- 1, q\<lparr>m_lastError := EBADF\<rparr>)
      | Some f \<Rightarrow>
          if d_mode q AND FM_WRITE fm = 0 then (- 1, q\<lparr>m_lastError := EBADF\<rparr>)
          else if sz < 0 then (- 1, q\<lparr>m_lastError := EINVAL\<rparr>)
          else
            (case ftello f of
               Inl errno \<Rightarrow> (- 1, q\<lparr>m_lastError := errno\<rparr>)
             | Inr pos \<Rightarrow>
                 (case ftruncate f sz of
                    Inl errno \<Rightarrow> (- 1, q\<lparr>m_lastError := errno\<rparr>)
                  | Inr f1 \<Rightarrow>
                      if pos > sz then
                        (case fseeko_SET f1 sz of
                           Inl errno \<Rightarrow> (- 1, q\<lparr>d_file := Some f1, m_lastError := errno\<rparr>)
                         | Inr f2 \<Rightarrow> (0, q\<lparr>d_file := Some f2\<rparr>))
                      else (0, q\<lparr>d_file := Some f1\<rparr>))))"

definition RpFile_size :: "RpFile \<Rightarrow> int \<times> RpFile" where
  "RpFile_size q =
     (case d_file q of
        None \<Rightarrow> (- 1, q\<lparr>m_lastError := EBADF\<rparr>)
      | Some f \<Rightarrow>
          (case d_gzfd q of
             Some gz \<Rightarrow> (d_gzsz q, q)
           | None \<Rightarrow>
               (let cur_pos = off_ret (ftello f);
                    f1 = ignore_failure (fseeko_END f 0) f;
                    end_pos = off_ret (ftello f1);
                    f2 = ignore_failure (fseeko_SET f1 cur_pos) f1
                in (end_pos, q\<lparr>d_file := Some f2\<rparr>))))"

section \<open>IRpFile (IRpFile.cpp)\<close>

text \<open>
  \<^verbatim>\<open>getc\<close> and \<^verbatim>\<open>ungetc\<close> of the interface call the virtual \<^verbatim>\<open>read\<close>,
  \<^verbatim>\<open>tell\<close> and \<^verbatim>\<open>seek\<close> of the object: the methods are a parameter.
\<close>

record 's IRpFile =
  v_read :: "'s \<Rightarrow> nat \<Rightarrow> byte list \<times> 's"
  v_seek :: "'s \<Rightarrow> int \<Rightarrow> int \<times> 's"
  v_tell :: "'s \<Rightarrow> int \<times> 's"

definition IRpFile_getc :: "'s IRpFile \<Rightarrow> 's \<Rightarrow> int \<times> 's" where
  "IRpFile_getc this s =
     (let (buf, s') = v_read this s 1
      in (case buf of [b] \<Rightarrow> uint b | _ \<Rightarrow> EOF, s'))"

definition IRpFile_ungetc :: "'s IRpFile \<Rightarrow> 's \<Rightarrow> int \<Rightarrow> int \<times> 's" where
  "IRpFile_ungetc this s c =
     (let (pos, s') = v_tell this s
      in if pos \<le> 0 then (- 1, s') else v_seek this s' (pos - 1))"

definition RpFile_vtbl :: "RpFile IRpFile" where
  "RpFile_vtbl = \<lparr>v_read = RpFile_read, v_seek = RpFile_seek, v_tell = RpFile_tell\<rparr>"

section \<open>SparseBlockReader\<close>

text \<open>
  Of the sparse reader the sources hold one declaration, \<^verbatim>\<open>WuxReader::getPhysBlockAddr\<close>
  in WuxReader.hpp (the physical address of a logical block; \<open>0\<close> an empty block, \<open>-1\<close>
  an invalid block index). The reader that calls it (SparseDiscReader.cpp) and the body
  of the resolver (WuxReader.cpp) are not among them, so this section follows the
  specification.
\<close>

text \<open>
  Modelled from the spec: the physical address of section 3, for the missing
  SparseDiscReader.cpp: out of range, all zero with no storage, or a byte offset in the
  backing file.
\<close>

datatype PhysicalAddr = Missing | Empty | At nat

text \<open>
  Modelled from the spec: the error of a read that needs a block beyond the block
  count (section 7), for the missing SparseDiscReader.cpp.
\<close>

datatype read_error = InvalidBlock

text \<open>
  Modelled from the spec: the block map of section 3, for the missing WuxReader.cpp. The
  table of the format gives each block below \<open>block_count\<close> its physical byte offset,
  or 0, the sentinel of an empty block.
\<close>

record SparseBlockReader =
  block_size :: nat
  block_count :: nat
  block_table :: "nat \<Rightarrow> nat"

text \<open>
  Modelled from the spec: the body of \<^verbatim>\<open>getPhysBlockAddr\<close>, for the missing
  WuxReader.cpp. The declaration gives the result: the physical address, 0 for an
  empty block and \<open>-1\<close> for an invalid block index; the spec gives the invalid
  indices, those out of range.
\<close>

definition getPhysBlockAddr :: "SparseBlockReader \<Rightarrow> nat \<Rightarrow> int" where
  "getPhysBlockAddr r blockIdx =
     (if block_count r \<le> blockIdx then - 1 else int (block_table r blockIdx))"

text \<open>
  Modelled from the spec: \<open>resolve\<close> of section 3, reading the address that
  \<^verbatim>\<open>getPhysBlockAddr\<close> returns: \<open>Missing\<close> for an index out of range, \<open>Empty\<close> for
  a block with no physical storage, \<open>At\<close> the physical offset otherwise.
\<close>

definition resolve :: "SparseBlockReader \<Rightarrow> nat \<Rightarrow> PhysicalAddr" where
  "resolve r idx =
     (let addr = getPhysBlockAddr r idx
      in if addr < 0 then Missing else if addr = 0 then Empty else At (nat addr))"

text \<open>
  Modelled from the spec: the contribution of one touched block to the request
  \<open>[offset, offset + n)\<close> (section 4.4), for the missing SparseDiscReader.cpp. The
  result is the bytes and the reads issued to the backing store, each as its physical
  offset and length. \<open>Missing\<close> fails; \<open>Empty\<close> is zero bytes and no read; \<open>At p\<close> is
  a read of the needed sub-range at \<open>p\<close> plus the start inside the block (where the
  spec has a partial block read in full and the sub-range copied, the bytes are the
  same).
\<close>

definition block_part ::
  "SparseBlockReader \<Rightarrow> byte list \<Rightarrow> nat \<Rightarrow> nat \<Rightarrow> nat
     \<Rightarrow> read_error + byte list \<times> (nat \<times> nat) list" where
  "block_part r backing offset n idx =
     (let base = idx * block_size r;
          lo = max offset base - base;
          hi = min (offset + n) (base + block_size r) - base
      in case resolve r idx of
           Missing \<Rightarrow> Inl InvalidBlock
         | Empty \<Rightarrow> Inr (replicate (hi - lo) 0, [])
         | At p \<Rightarrow> Inr (take (hi - lo) (drop (p + lo) backing), [(p + lo, hi - lo)]))"

text \<open>
  Modelled from the spec: the touched blocks in order; the first \<open>Missing\<close> one fails
  the whole read.
\<close>

fun read_blocks ::
  "SparseBlockReader \<Rightarrow> byte list \<Rightarrow> nat \<Rightarrow> nat \<Rightarrow> nat list
     \<Rightarrow> read_error + byte list \<times> (nat \<times> nat) list" where
  "read_blocks r backing offset n [] = Inr ([], [])"
| "read_blocks r backing offset n (idx # idxs) =
     (case block_part r backing offset n idx of
        Inl e \<Rightarrow> Inl e
      | Inr (bs, reads) \<Rightarrow>
          (case read_blocks r backing offset n idxs of
             Inl e \<Rightarrow> Inl e
           | Inr (bs', reads') \<Rightarrow> Inr (bs @ bs', reads @ reads')))"

text \<open>
  Modelled from the spec: the logical size, \<open>block_count * block_size\<close> (section 4.4).
\<close>

definition sparse_size :: "SparseBlockReader \<Rightarrow> nat" where
  "sparse_size r = block_count r * block_size r"

text \<open>
  Modelled from the spec: the read of the logical range \<open>[offset, offset + n)\<close>. A read
  never goes past the size (section 4.1): the request is cut at the logical end, so a
  request across the end is a short read and one at or beyond the end reads zero bytes,
  neither an error (sections 4.4 and 7). The blocks touched by what is left run from
  \<open>first = offset / block_size\<close> to \<open>last = (offset + n - 1) / block_size\<close>. The
  one-block cache is left out: each block is read from the backing store.
\<close>

definition sparse_read ::
  "SparseBlockReader \<Rightarrow> byte list \<Rightarrow> nat \<Rightarrow> nat
     \<Rightarrow> read_error + byte list \<times> (nat \<times> nat) list" where
  "sparse_read r backing offset n =
     (let n' = min n (sparse_size r - offset)
      in if n' = 0 then Inr ([], [])
         else let first = offset div block_size r;
                  last = (offset + n' - 1) div block_size r
              in read_blocks r backing offset n' [first ..< Suc last])"

section \<open>Concrete objects\<close>

text \<open>
  The enumerators as RpFile.hpp of the project declares them: read 0, write 1,
  create 2, the mask 3 and the gzip flag 4.
\<close>

definition RpFile_hpp :: FileMode where
  "RpFile_hpp =
     \<lparr>FM_READ = 0, FM_WRITE = 1, FM_CREATE = 2, FM_OPEN_READ = 0, FM_OPEN_WRITE = 1,
      FM_CREATE_WRITE = 3, FM_MODE_MASK = 3, FM_OPEN_READ_GZ = 4\<rparr>"

text \<open>
  A gzip file: the sixteen bytes \<open>ab_text\<close> (\<open>ab\<close> eight times) as zlib compresses
  them at level 9 with a gzip header, 24 bytes whose trailer says 16.
\<close>

definition ab_text :: "byte list" where
  "ab_text = [97, 98, 97, 98, 97, 98, 97, 98, 97, 98, 97, 98, 97, 98, 97, 98]"

definition ab_gz :: "byte list" where
  "ab_gz =
     [0x1F, 0x8B, 8, 0, 0, 0, 0, 0, 2, 3, 75, 76, 74, 68, 129, 0,
      8, 187, 9, 46, 16, 0, 0, 0]"

text \<open>
  Two files of twenty bytes that carry the gzip magic and are no gzip streams (their
  compression method is 0): the trailer of \<open>gz20\<close> says 5, which passes the check of
  the size, the trailer of \<open>bad20\<close> says 1, which fails it.
\<close>

definition gz20 :: "byte list" where
  "gz20 = [0x1F, 0x8B] @ replicate 14 0 @ [5, 0, 0, 0]"

definition bad20 :: "byte list" where
  "bad20 = [0x1F, 0x8B] @ replicate 14 0 @ [1, 0, 0, 0]"

text \<open>
  A file system with the files \<open>a.gz\<close>, \<open>b.gz\<close>, \<open>x.gz\<close> and \<open>c.bin\<close>, where a
  file opened with \<open>wb+\<close> is empty. Of its files zlib inflates \<open>ab_gz\<close>, to
  \<open>ab_text\<close>, and rejects the others.
\<close>

definition demo_os :: OS where
  "demo_os =
     \<lparr>os_fopen = (\<lambda>name m.
          if m = ''wb+'' then Inr []
          else if name = ''a.gz'' then Inr ab_gz
          else if name = ''b.gz'' then Inr bad20
          else if name = ''x.gz'' then Inr gz20
          else if name = ''c.bin'' then Inr [7, 8, 9]
          else Inl 2),
      os_fstat = (\<lambda>name. Some False),
      os_inflate = (\<lambda>d. if d = ab_gz then Some ab_text else None),
      os_errno = 0\<rparr>"

text \<open>An open file of three bytes at position \<open>p\<close>, with mode \<open>m\<close>.\<close>

definition demo_file :: "byte \<Rightarrow> nat \<Rightarrow> RpFile" where
  "demo_file m p =
     \<lparr>d_file = Some \<lparr>f_data = [7, 8, 9], f_pos = p\<rparr>, d_filename = ''c.bin'', d_mode = m,
      d_isDevice = False, d_gzfd = None, d_gzsz = - 1, m_lastError = 0\<rparr>"

text \<open>
  The object that opening \<open>a.gz\<close> for decompression gives, after \<open>p\<close> decompressed
  bytes were read.
\<close>

definition demo_gz_file :: "nat \<Rightarrow> RpFile" where
  "demo_gz_file p =
     \<lparr>d_file = Some \<lparr>f_data = ab_gz, f_pos = 0\<rparr>, d_filename = ''a.gz'', d_mode = 4,
      d_isDevice = False,
      d_gzfd = Some \<lparr>gz_out = Some ab_text, gz_pos = p, gz_err = False, gz_errno = 0\<rparr>,
      d_gzsz = 16, m_lastError = 0\<rparr>"


text \<open>
  A sparse image of three blocks of 512 bytes over a backing store of 1536 bytes:
  block 0 at offset 1024, block 1 empty, block 2 at offset 512.
\<close>

definition demo_reader :: SparseBlockReader where
  "demo_reader =
     \<lparr>block_size = 512, block_count = 3,
      block_table = (\<lambda>i. if i = 0 then 1024 else if i = 2 then 512 else 0)\<rparr>"

definition demo_backing :: "byte list" where
  "demo_backing = replicate 512 1 @ replicate 512 2 @ replicate 512 3"

section \<open>Objects in use and sequences of reads\<close>




section \<open>Facts about the operations\<close>

subsection \<open>The mode and the zlib stream of an object\<close>


lemma init_gzip_open:
  "(\<exists>f'. d_file (init_gzip os q f) = Some f')
   \<and> m_lastError (init_gzip os q f) = m_lastError q"
  by (auto simp: init_gzip_def Let_def split: prod.splits sum.splits if_splits)





subsection \<open>Opening\<close>

lemma new_opened:
  assumes "mode_to_str fm mode = Some ms" and "os_fopen os name ms = Inr d"
  shows "reOpenFile fm os
           \<lparr>d_file = None, d_filename = name, d_mode = mode, d_isDevice = False,
            d_gzfd = None, d_gzsz = - 1, m_lastError = 0\<rparr>
       = Returns (0, \<lparr>d_file = Some \<lparr>f_data = d, f_pos = 0\<rparr>, d_filename = name,
                      d_mode = mode,
                      d_isDevice = (case os_fstat os name of Some dev \<Rightarrow> dev | None \<Rightarrow> False),
                      d_gzfd = None, d_gzsz = - 1, m_lastError = 0\<rparr>)"
  using assms by (simp add: reOpenFile_def fopen_def)

lemma failed_open_null:
  assumes "reOpenFile fm os q = Returns (r, q')" and "r \<noteq> 0"
  shows "d_file q' = None \<and> m_lastError q' = r"
  using assms
  by (auto simp: reOpenFile_def fopen_def Let_def split: option.splits sum.splits)

lemma close_null: "d_file (RpFile_close q) = None \<and> d_gzfd (RpFile_close q) = None"
  by (simp add: RpFile_close_def)

lemma mode_str_cases:
  assumes "mode_to_str fm mode = Some ms"
  shows "ms = ''rb'' \<or> ms = ''rb+'' \<or> ms = ''wb+''"
  using assms by (auto simp: mode_to_str_def Let_def split: if_splits)

text \<open>
  A mode that \<^verbatim>\<open>mode_to_str\<close> does not resolve is not rejected either: the null
  mode string reaches \<^verbatim>\<open>fopen\<close>.
\<close>

lemma unresolved_mode_undefined:
  assumes "mode_to_str fm mode = None"
  shows "RpFile_new fm os name mode = Undefined"
  using assms by (simp add: RpFile_new_def RpFile_init_def reOpenFile_def fopen_def)

text \<open>With the mask 3, the four labels of the switch are all the values it can see.\<close>

lemma mask3: "(m :: byte) AND 3 = 0 \<or> m AND 3 = 1 \<or> m AND 3 = 2 \<or> m AND 3 = 3"
proof -
  have "m AND 3 \<le> 3" by (rule word_and_le1)
  then have "unat (m AND 3) \<le> 3" by (simp add: word_le_nat_alt)
  then have "unat (m AND 3) = 0 \<or> unat (m AND 3) = 1 \<or> unat (m AND 3) = 2
      \<or> unat (m AND 3) = 3"
    by arith
  moreover have "m AND 3 = of_nat (unat (m AND 3))" by simp
  ultimately show ?thesis by (elim disjE) simp_all
qed

lemma hpp_resolves: "mode_to_str RpFile_hpp m \<noteq> None"
  using mask3 [of m] by (auto simp: mode_to_str_def RpFile_hpp_def Let_def)


subsection \<open>The gzip check\<close>

text \<open>
  On a file that starts with the magic bytes the check comes down to the length of the
  file and the number in its last four bytes.
\<close>

lemma init_gzip_magic:
  assumes "take 2 d = [0x1F, 0x8B]" and "d_gzfd q = None"
  shows "init_gzip os q \<lparr>f_data = d, f_pos = 0\<rparr> =
     (if 18 < length d \<and> int (length d) - 18 \<le> uint (le32 (drop (length d - 4) d))
      then q\<lparr>d_gzsz := uint (le32 (drop (length d - 4) d)),
             d_gzfd := Some \<lparr>gz_out = os_inflate os d, gz_pos = 0, gz_err = False,
                             gz_errno = os_errno os\<rparr>,
             d_file := Some \<lparr>f_data = d, f_pos = 0\<rparr>\<rparr>
      else q\<lparr>d_file := Some \<lparr>f_data = d, f_pos = 0\<rparr>\<rparr>)"
proof -
  have len2: "2 \<le> length d"
  proof (rule ccontr)
    assume "\<not> 2 \<le> length d"
    then have "length (take 2 d) < 2" by simp
    with assms(1) show False by simp
  qed
  have tail: "take 4 (drop (nat (int (length d) - 4)) d) = drop (length d - 4) d"
    if "18 < length d"
    using that by (simp add: nat_diff_distrib')
  show ?thesis
    using assms len2 tail
    by (simp add: init_gzip_def fread_def fseeko_END_def fseeko_SET_def ftello_def
        off_ret_def ignore_failure_def rewind_def dup_def fileno_def gzdopen_def Let_def
        nat_diff_distrib' min_def)
qed

text \<open>Opening \<open>a.gz\<close> of the example for decompression engages zlib.\<close>

lemma new_demo_gz_file: "RpFile_new RpFile_hpp demo_os ''a.gz'' 4 = Returns (demo_gz_file 0)"
proof -
  have m: "mode_to_str RpFile_hpp 4 = Some ''rb''"
    by (simp add: mode_to_str_def RpFile_hpp_def)
  have o: "os_fopen demo_os ''a.gz'' ''rb'' = Inr ab_gz"
    by (simp add: demo_os_def)
  have t: "take 2 ab_gz = [0x1F, 0x8B]"
    by (simp add: ab_gz_def)
  have c: "18 < length ab_gz
      \<and> int (length ab_gz) - 18 \<le> uint (le32 (drop (length ab_gz - 4) ab_gz))"
    and u: "uint (le32 (drop (length ab_gz - 4) ab_gz)) = 16"
    by (simp_all add: ab_gz_def)
  have i: "os_inflate demo_os ab_gz = Some ab_text"
    and e: "os_errno demo_os = 0"
    and s: "os_fstat demo_os ''a.gz'' = Some False"
    by (simp_all add: demo_os_def)
  have g: "FM_OPEN_READ_GZ RpFile_hpp = 4"
    by (simp add: RpFile_hpp_def)
  show ?thesis
    unfolding RpFile_new_def RpFile_init_def new_opened [OF m o]
    using c by (simp add: g init_gzip_magic [OF t] u i e s demo_gz_file_def)
qed


subsection \<open>Size, truncate and successive reads\<close>

lemma size_unchanged:
  assumes "d_file q = Some f"
  shows "RpFile_size q
       = (case d_gzfd q of Some gz \<Rightarrow> d_gzsz q | None \<Rightarrow> int (length (f_data f)), q)"
  using assms
  by (simp add: RpFile_size_def Let_def ftello_def fseeko_END_def fseeko_SET_def off_ret_def
      ignore_failure_def split: option.splits)



lemma min_length_one: "min (length xs) (Suc 0) = (if xs = [] then 0 else Suc 0)"
  by (cases xs) auto





subsection \<open>Blocks of a sparse image\<close>










section \<open>C1: gzip detection at open\<close>




section \<open>C2: a read across three blocks of a sparse image\<close>

text \<open>
  Claim C2. With blocks of 512 bytes, block 0 at the physical offset \<open>X\<close>, block 1
  empty and block 2 at \<open>Y\<close>, both physical blocks inside the backing store, the read of
  the logical range \<open>[256, 1280)\<close> returns 1024 bytes: the last 256 bytes of the block at
  \<open>X\<close>, then 512 zero bytes, then the first 256 bytes of the block at \<open>Y\<close>. It issues
  two reads to the backing store, one inside each physical block, and none for the
  empty block.
\<close>

theorem sparse_read_three_blocks:
  assumes "block_size r = 512"
    and "resolve r 0 = At X" and "resolve r 1 = Empty" and "resolve r 2 = At Y"
    and "X + 512 \<le> length backing" and "Y + 512 \<le> length backing"
  shows "sparse_read r backing 256 1024
       = Inr (drop 256 (take 512 (drop X backing)) @ replicate 512 0
                @ take 256 (take 512 (drop Y backing)),
              [(X + 256, 256), (Y, 256)])
     \<and> length (drop 256 (take 512 (drop X backing)) @ replicate 512 0
                @ take 256 (take 512 (drop Y backing))) = 1024"
proof -
  have r1: "resolve r (Suc 0) = Empty" using assms(3) by simp
  have r2: "resolve r (Suc (Suc 0)) = At Y" using assms(4) by (simp add: numeral_2_eq_2)
  have "\<not> block_count r \<le> 2"
    using assms(4) by (auto simp: resolve_def getPhysBlockAddr_def Let_def split: if_splits)
  then have "3 * 512 \<le> sparse_size r"
    using assms(1) by (simp add: sparse_size_def)
  then have cut: "min 1024 (sparse_size r - 256) = 1024"
    by simp
  have b0: "block_part r backing 256 1024 0
      = Inr (drop 256 (take 512 (drop X backing)), [(X + 256, 256)])"
    using assms(1,2) by (simp add: block_part_def drop_take add.commute)
  have b1: "block_part r backing 256 1024 (Suc 0) = Inr (replicate 512 0, [])"
    using assms(1) r1 by (simp add: block_part_def)
  have b2: "block_part r backing 256 1024 (Suc (Suc 0))
      = Inr (take 256 (take 512 (drop Y backing)), [(Y, 256)])"
    using assms(1) r2 by (simp add: block_part_def)
  have "sparse_read r backing 256 1024
      = read_blocks r backing 256 1024 [0, Suc 0, Suc (Suc 0)]"
    using assms(1) by (simp add: sparse_read_def cut upt_rec)
  also have "\<dots> = Inr (drop 256 (take 512 (drop X backing)) @ replicate 512 0
                @ take 256 (take 512 (drop Y backing)),
              [(X + 256, 256), (Y, 256)])"
    by (simp add: b0 b1 b2)
  finally show ?thesis using assms(5,6) by simp
qed

theorem sparse_read_three_blocks_witness:
  "block_size demo_reader = 512
   \<and> resolve demo_reader 0 = At 1024 \<and> resolve demo_reader 1 = Empty
   \<and> resolve demo_reader 2 = At 512
   \<and> 1024 + 512 \<le> length demo_backing \<and> 512 + 512 \<le> length demo_backing
   \<and> sparse_read demo_reader demo_backing 256 1024
       = Inr (replicate 256 3 @ replicate 512 0 @ replicate 256 2,
              [(1280, 256), (512, 256)])"
proof -
  have h1: "block_size demo_reader = 512" by (simp add: demo_reader_def)
  have h2: "resolve demo_reader 0 = At 1024"
    by (simp add: demo_reader_def resolve_def getPhysBlockAddr_def)
  have h3: "resolve demo_reader 1 = Empty"
    by (simp add: demo_reader_def resolve_def getPhysBlockAddr_def)
  have h4: "resolve demo_reader 2 = At 512"
    by (simp add: demo_reader_def resolve_def getPhysBlockAddr_def)
  have h5: "1024 + 512 \<le> length demo_backing" by (simp add: demo_backing_def)
  have h6: "512 + 512 \<le> length demo_backing" by (simp add: demo_backing_def)
  have e1: "drop 256 (take 512 (drop 1024 demo_backing)) = replicate 256 3"
    by (simp add: demo_backing_def)
  have e2: "take 256 (drop 512 demo_backing) = replicate 256 2"
    by (simp add: demo_backing_def)
  show ?thesis
    using h1 h2 h3 h4 h5 h6 sparse_read_three_blocks [OF h1 h2 h3 h4 h5 h6]
    by (simp add: e1 e2)
qed

section \<open>C3: a block beyond the block count\<close>




section \<open>C4: getc and ungetc\<close>

text \<open>
  Claim C4. On an open file at position 0: when a read of one byte returns the byte
  \<open>b\<close>, the position is 1, \<^verbatim>\<open>ungetc\<close> then returns 0 and puts the object back as it
  was, at position 0, and the next \<^verbatim>\<open>getc\<close> returns \<open>b\<close> again. Whatever the first
  \<^verbatim>\<open>getc\<close> returned, after \<^verbatim>\<open>ungetc\<close> the position is 0 and \<^verbatim>\<open>getc\<close> returns
  the same value. \<^verbatim>\<open>ungetc\<close> at position 0 returns \<open>-1\<close> and leaves the object as
  it was: it only moves the position back, and its argument is ignored.
\<close>

theorem ungetc_rewinds_one_byte:
  assumes "d_file q = Some f" and "fst (RpFile_tell q) = 0"
  shows "(\<forall>b q1. RpFile_read q 1 = ([b], q1) \<longrightarrow>
            fst (RpFile_tell q1) = 1
          \<and> IRpFile_ungetc RpFile_vtbl q1 c = (0, q)
          \<and> fst (IRpFile_getc RpFile_vtbl q) = uint b)
       \<and> fst (RpFile_tell (snd (IRpFile_ungetc RpFile_vtbl (snd (IRpFile_getc RpFile_vtbl q)) c))) = 0
       \<and> fst (IRpFile_getc RpFile_vtbl
               (snd (IRpFile_ungetc RpFile_vtbl (snd (IRpFile_getc RpFile_vtbl q)) c)))
           = fst (IRpFile_getc RpFile_vtbl q)
       \<and> IRpFile_ungetc RpFile_vtbl q c = (- 1, q)"
proof (cases "d_gzfd q")
  case None
  have pos: "f_pos f = 0"
    using assms None by (simp add: RpFile_tell_def ftello_def off_ret_def)
  have f0: "f\<lparr>f_pos := 0\<rparr> = f" using pos by simp
  have q0: "q\<lparr>d_file := Some f\<rparr> = q" using assms(1) by simp
  show ?thesis
    using assms None pos f0 q0
    by (auto simp: IRpFile_ungetc_def IRpFile_getc_def RpFile_vtbl_def RpFile_read_def
        RpFile_tell_def RpFile_seek_def fread_def ftello_def off_ret_def fseeko_SET_def
        Let_def EOF_def take_Suc min_length_one split: list.splits)
next
  case (Some gz)
  have pos: "gz_pos gz = 0"
    using assms Some by (simp add: RpFile_tell_def gztell_def)
  have g0: "gz\<lparr>gz_pos := 0\<rparr> = gz" using pos by simp
  have q0: "q\<lparr>d_gzfd := Some gz\<rparr> = q" using Some by simp
  show ?thesis
    using assms Some pos g0 q0
    by (auto simp: IRpFile_ungetc_def IRpFile_getc_def RpFile_vtbl_def RpFile_read_def
        RpFile_tell_def RpFile_seek_def gzread_def gztell_def gzseek_SET_def
        Let_def EOF_def take_Suc min_length_one
        split: list.splits sum.splits option.splits if_splits)
qed

theorem ungetc_rewinds_one_byte_witness:
  "d_file (demo_file 0 0) = Some \<lparr>f_data = [7, 8, 9], f_pos = 0\<rparr>
   \<and> fst (RpFile_tell (demo_file 0 0)) = 0
   \<and> RpFile_read (demo_file 0 0) 1 = ([7], demo_file 0 1)
   \<and> IRpFile_ungetc RpFile_vtbl (demo_file 0 1) 7 = (0, demo_file 0 0)
   \<and> fst (IRpFile_getc RpFile_vtbl (demo_file 0 0)) = 7
   \<and> IRpFile_ungetc RpFile_vtbl (demo_file 0 0) 7 = (- 1, demo_file 0 0)"
proof -
  have h1: "d_file (demo_file 0 0) = Some \<lparr>f_data = [7, 8, 9], f_pos = 0\<rparr>"
    by (simp add: demo_file_def)
  have h2: "fst (RpFile_tell (demo_file 0 0)) = 0"
    by (simp add: demo_file_def RpFile_tell_def ftello_def off_ret_def)
  have h3: "RpFile_read (demo_file 0 0) 1 = ([7], demo_file 0 1)"
    by (simp add: demo_file_def RpFile_read_def fread_def)
  show ?thesis
    using h1 h2 h3 ungetc_rewinds_one_byte [OF h1 h2, of 7] by simp
qed

section \<open>C5: size keeps the position\<close>

text \<open>
  Claim C5. On an open file, \<^verbatim>\<open>size\<close> leaves the object, and so the value of
  \<^verbatim>\<open>tell\<close>, as it was: for a plain file it returns the length of the file after
  seeking to the end and back, for a decompressed one the size read from the trailer,
  without seeking.
\<close>

theorem size_keeps_position:
  assumes "d_file q = Some f"
  shows "snd (RpFile_size q) = q
     \<and> fst (RpFile_tell (snd (RpFile_size q))) = fst (RpFile_tell q)
     \<and> fst (RpFile_size q)
         = (case d_gzfd q of Some gz \<Rightarrow> d_gzsz q | None \<Rightarrow> int (length (f_data f)))"
  using size_unchanged [OF assms] by simp

theorem size_keeps_position_witness:
  "d_file (demo_file 0 2) = Some \<lparr>f_data = [7, 8, 9], f_pos = 2\<rparr>
   \<and> fst (RpFile_tell (demo_file 0 2)) = 2
   \<and> fst (RpFile_size (demo_file 0 2)) = 3
   \<and> fst (RpFile_tell (snd (RpFile_size (demo_file 0 2)))) = 2
   \<and> d_file (demo_gz_file 3) = Some \<lparr>f_data = ab_gz, f_pos = 0\<rparr>
   \<and> fst (RpFile_tell (demo_gz_file 3)) = 3
   \<and> fst (RpFile_size (demo_gz_file 3)) = 16
   \<and> fst (RpFile_tell (snd (RpFile_size (demo_gz_file 3)))) = 3"
proof -
  have h1: "d_file (demo_file 0 2) = Some \<lparr>f_data = [7, 8, 9], f_pos = 2\<rparr>"
    by (simp add: demo_file_def)
  have h2: "fst (RpFile_tell (demo_file 0 2)) = 2"
    by (simp add: demo_file_def RpFile_tell_def ftello_def off_ret_def)
  have h3: "d_gzfd (demo_file 0 2) = None"
    by (simp add: demo_file_def)
  have g1: "d_file (demo_gz_file 3) = Some \<lparr>f_data = ab_gz, f_pos = 0\<rparr>"
    by (simp add: demo_gz_file_def)
  have g2: "fst (RpFile_tell (demo_gz_file 3)) = 3"
    by (simp add: demo_gz_file_def RpFile_tell_def gztell_def)
  have g3: "d_gzfd (demo_gz_file 3)
      = Some \<lparr>gz_out = Some ab_text, gz_pos = 3, gz_err = False, gz_errno = 0\<rparr>"
    and g4: "d_gzsz (demo_gz_file 3) = 16"
    by (simp_all add: demo_gz_file_def)
  show ?thesis
    using h1 h2 h3 g1 g2 g3 g4 size_keeps_position [OF h1] size_keeps_position [OF g1]
    by simp
qed

section \<open>C6: truncate\<close>



section \<open>C7: writing through a read-only object\<close>

text \<open>
  Claim C7. When the mode of the object has no \<^verbatim>\<open>FM_WRITE\<close> bit, \<^verbatim>\<open>write\<close> returns 0
  for every buffer, sets the last error (the code reports a read-only object with
  \<^verbatim>\<open>EBADF\<close>), and leaves the stream, and so the contents and the position, as they
  were.
\<close>

theorem write_not_writable:
  assumes "d_mode q AND FM_WRITE fm = 0"
  shows "RpFile_write fm q buf = (0, q\<lparr>m_lastError := EBADF\<rparr>)
       \<and> d_file (snd (RpFile_write fm q buf)) = d_file q
       \<and> d_gzfd (snd (RpFile_write fm q buf)) = d_gzfd q
       \<and> fst (RpFile_tell (snd (RpFile_write fm q buf))) = fst (RpFile_tell q)"
  using assms
  by (simp add: RpFile_write_def RpFile_tell_def split: option.splits)

theorem write_not_writable_witness:
  "d_mode (demo_file 0 2) AND FM_WRITE RpFile_hpp = 0
   \<and> RpFile_write RpFile_hpp (demo_file 0 2) [1, 2] = (0, (demo_file 0 2)\<lparr>m_lastError := EBADF\<rparr>)
   \<and> d_file (snd (RpFile_write RpFile_hpp (demo_file 0 2) [1, 2]))
       = Some \<lparr>f_data = [7, 8, 9], f_pos = 2\<rparr>"
proof -
  have h: "d_mode (demo_file 0 2) AND FM_WRITE RpFile_hpp = 0"
    by (simp add: demo_file_def RpFile_hpp_def)
  show ?thesis
    using h write_not_writable [OF h, of "[1, 2]"] by (simp add: demo_file_def)
qed

section \<open>C8: the mode at open\<close>

text \<open>
  Claim C8, as amended. The open rejects no mode value. A mode that \<^verbatim>\<open>mode_to_str\<close>
  resolves goes to \<^verbatim>\<open>fopen\<close> as \<open>rb\<close>, \<open>rb+\<close> or \<open>wb+\<close>; when \<^verbatim>\<open>fopen\<close> fails
  the object has no stream and its last error is the \<^verbatim>\<open>errno\<close> of \<^verbatim>\<open>fopen\<close>
  (\<^verbatim>\<open>EIO\<close> when that is 0), and when it succeeds the object is open with no error.
  With the enumerators of RpFile.hpp every mode value is resolved, and
  \<^verbatim>\<open>FM_CREATE|FM_READ\<close> is opened like \<^verbatim>\<open>FM_CREATE_WRITE\<close>.
\<close>

theorem open_fails_only_when_fopen_fails:
  assumes "mode_to_str fm mode = Some ms"
  shows "(ms = ''rb'' \<or> ms = ''rb+'' \<or> ms = ''wb+'')
     \<and> (case os_fopen os name ms of
          Inl e \<Rightarrow>
            RpFile_new fm os name mode
              = Returns \<lparr>d_file = None, d_filename = name, d_mode = mode, d_isDevice = False,
                         d_gzfd = None, d_gzsz = - 1,
                         m_lastError = (if e = 0 then EIO else e)\<rparr>
        | Inr d \<Rightarrow>
            (\<exists>q. RpFile_new fm os name mode = Returns q \<and> RpFile_isOpen q
                 \<and> m_lastError q = 0))
     \<and> mode_to_str RpFile_hpp mode' \<noteq> None
     \<and> mode_to_str RpFile_hpp (FM_CREATE RpFile_hpp OR FM_READ RpFile_hpp) = Some ''wb+''"
proof -
  have "case os_fopen os name ms of
          Inl e \<Rightarrow>
            RpFile_new fm os name mode
              = Returns \<lparr>d_file = None, d_filename = name, d_mode = mode, d_isDevice = False,
                         d_gzfd = None, d_gzsz = - 1,
                         m_lastError = (if e = 0 then EIO else e)\<rparr>
        | Inr d \<Rightarrow>
            (\<exists>q. RpFile_new fm os name mode = Returns q \<and> RpFile_isOpen q
                 \<and> m_lastError q = 0)"
    using assms
    by (auto simp: RpFile_new_def RpFile_init_def reOpenFile_def fopen_def Let_def EIO_def
        RpFile_isOpen_def init_gzip_open split: sum.splits)
  moreover have "mode_to_str RpFile_hpp (FM_CREATE RpFile_hpp OR FM_READ RpFile_hpp) = Some ''wb+''"
    by (simp add: mode_to_str_def RpFile_hpp_def)
  ultimately show ?thesis
    using mode_str_cases [OF assms] hpp_resolves by blast
qed

theorem open_fails_only_when_fopen_fails_witness:
  "mode_to_str RpFile_hpp 0 = Some ''rb''
   \<and> RpFile_new RpFile_hpp demo_os ''zz'' 0
       = Returns \<lparr>d_file = None, d_filename = ''zz'', d_mode = 0, d_isDevice = False,
                  d_gzfd = None, d_gzsz = - 1, m_lastError = 2\<rparr>
   \<and> (\<exists>q. RpFile_new RpFile_hpp demo_os ''c.bin'' 0 = Returns q \<and> RpFile_isOpen q
          \<and> m_lastError q = 0)"
proof -
  have m: "mode_to_str RpFile_hpp 0 = Some ''rb''"
    by (simp add: mode_to_str_def RpFile_hpp_def)
  have f1: "os_fopen demo_os ''zz'' ''rb'' = Inl 2"
    by (simp add: demo_os_def)
  have f2: "os_fopen demo_os ''c.bin'' ''rb'' = Inr [7, 8, 9]"
    by (simp add: demo_os_def)
  show ?thesis
    using m open_fails_only_when_fopen_fails [OF m, of demo_os "''zz''"]
      open_fails_only_when_fopen_fails [OF m, of demo_os "''c.bin''"]
    by (simp add: f1 f2)
qed

text \<open>
  Claim C8 as stated fails: the mode value \<^verbatim>\<open>FM_CREATE|FM_READ\<close> is none of
  open-existing-read, open-existing-read-write and create-truncate-read-write, and the
  open with it succeeds, with a stream and no error.
\<close>

theorem open_rejects_mode_counterexample:
  "FM_CREATE RpFile_hpp OR FM_READ RpFile_hpp \<noteq> FM_OPEN_READ RpFile_hpp
   \<and> FM_CREATE RpFile_hpp OR FM_READ RpFile_hpp \<noteq> FM_OPEN_WRITE RpFile_hpp
   \<and> FM_CREATE RpFile_hpp OR FM_READ RpFile_hpp \<noteq> FM_CREATE_WRITE RpFile_hpp
   \<and> RpFile_new RpFile_hpp demo_os ''c.bin'' (FM_CREATE RpFile_hpp OR FM_READ RpFile_hpp)
       = Returns \<lparr>d_file = Some \<lparr>f_data = [], f_pos = 0\<rparr>, d_filename = ''c.bin'',
                  d_mode = 2, d_isDevice = False, d_gzfd = None, d_gzsz = - 1,
                  m_lastError = 0\<rparr>"
  by (simp add: RpFile_new_def RpFile_init_def reOpenFile_def fopen_def mode_to_str_def
      RpFile_hpp_def demo_os_def)

section \<open>C9: a null handle\<close>

text \<open>
  Claim C9. On an object whose stream pointer is null (the open failed, or
  \<^verbatim>\<open>close\<close> was called) every operation returns at once: \<^verbatim>\<open>read\<close> and
  \<^verbatim>\<open>write\<close> return 0 (no byte), \<^verbatim>\<open>seek\<close>, \<^verbatim>\<open>truncate\<close>, \<^verbatim>\<open>tell\<close> and
  \<^verbatim>\<open>size\<close> return \<open>-1\<close>, and the object is as before but for the last error, which is
  \<^verbatim>\<open>EBADF\<close>.
\<close>

theorem null_handle_operations_fail:
  assumes "d_file q = None"
  shows "RpFile_read q n = ([], q\<lparr>m_lastError := EBADF\<rparr>)
       \<and> RpFile_write fm q buf = (0, q\<lparr>m_lastError := EBADF\<rparr>)
       \<and> RpFile_seek q pos = (- 1, q\<lparr>m_lastError := EBADF\<rparr>)
       \<and> RpFile_truncate fm q sz = (- 1, q\<lparr>m_lastError := EBADF\<rparr>)
       \<and> RpFile_tell q = (- 1, q\<lparr>m_lastError := EBADF\<rparr>)
       \<and> RpFile_size q = (- 1, q\<lparr>m_lastError := EBADF\<rparr>)"
  using assms
  by (simp add: RpFile_read_def RpFile_write_def RpFile_seek_def RpFile_truncate_def
      RpFile_tell_def RpFile_size_def)

theorem null_handle_operations_fail_witness:
  "d_file (RpFile_close (demo_file 1 2)) = None
   \<and> RpFile_read (RpFile_close (demo_file 1 2)) 4
       = ([], (RpFile_close (demo_file 1 2))\<lparr>m_lastError := EBADF\<rparr>)
   \<and> RpFile_write RpFile_hpp (RpFile_close (demo_file 1 2)) [1, 2]
       = (0, (RpFile_close (demo_file 1 2))\<lparr>m_lastError := EBADF\<rparr>)
   \<and> RpFile_seek (RpFile_close (demo_file 1 2)) 1
       = (- 1, (RpFile_close (demo_file 1 2))\<lparr>m_lastError := EBADF\<rparr>)
   \<and> RpFile_truncate RpFile_hpp (RpFile_close (demo_file 1 2)) 0
       = (- 1, (RpFile_close (demo_file 1 2))\<lparr>m_lastError := EBADF\<rparr>)
   \<and> RpFile_tell (RpFile_close (demo_file 1 2))
       = (- 1, (RpFile_close (demo_file 1 2))\<lparr>m_lastError := EBADF\<rparr>)
   \<and> RpFile_size (RpFile_close (demo_file 1 2))
       = (- 1, (RpFile_close (demo_file 1 2))\<lparr>m_lastError := EBADF\<rparr>)"
proof -
  have h: "d_file (RpFile_close (demo_file 1 2)) = None"
    by (simp add: RpFile_close_def)
  show ?thesis
    using h null_handle_operations_fail [OF h, of 4 RpFile_hpp "[1, 2]" 1 0] by simp
qed

section \<open>C10: truncating to a negative size\<close>

text \<open>
  Claim C10. On an open object with the \<^verbatim>\<open>FM_WRITE\<close> bit, \<^verbatim>\<open>truncate\<close> with a
  negative size returns \<open>-1\<close> with the last error \<^verbatim>\<open>EINVAL\<close>, and the stream, its
  contents and its position, is untouched.
\<close>

theorem truncate_negative_rejected:
  assumes "d_file q = Some f" and "d_mode q AND FM_WRITE fm \<noteq> 0" and "sz < 0"
  shows "RpFile_truncate fm q sz = (- 1, q\<lparr>m_lastError := EINVAL\<rparr>)
       \<and> d_file (snd (RpFile_truncate fm q sz)) = Some f
       \<and> fst (RpFile_size (snd (RpFile_truncate fm q sz))) = fst (RpFile_size q)
       \<and> fst (RpFile_tell (snd (RpFile_truncate fm q sz))) = fst (RpFile_tell q)"
  using assms
  by (simp add: RpFile_truncate_def RpFile_size_def RpFile_tell_def Let_def
      split: option.splits)

theorem truncate_negative_rejected_witness:
  "d_file (demo_file 1 2) = Some \<lparr>f_data = [7, 8, 9], f_pos = 2\<rparr>
   \<and> d_mode (demo_file 1 2) AND FM_WRITE RpFile_hpp \<noteq> 0
   \<and> (- 1 :: int) < 0
   \<and> RpFile_truncate RpFile_hpp (demo_file 1 2) (- 1)
       = (- 1, (demo_file 1 2)\<lparr>m_lastError := EINVAL\<rparr>)"
proof -
  have h1: "d_file (demo_file 1 2) = Some \<lparr>f_data = [7, 8, 9], f_pos = 2\<rparr>"
    by (simp add: demo_file_def)
  have h2: "d_mode (demo_file 1 2) AND FM_WRITE RpFile_hpp \<noteq> 0"
    by (simp add: demo_file_def RpFile_hpp_def)
  have h3: "(- 1 :: int) < 0" by simp
  show ?thesis
    using h1 h2 truncate_negative_rejected [OF h1 h2 h3] by simp
qed

end
